theory Spec2Isabelle
  imports Complex_Main
begin

section \<open>QuadriCAD: the sizing and selection engine of \<^verbatim>\<open>quadri_cad.py\<close>\<close>

text \<open>
  The development embeds the engineering functions of \<^verbatim>\<open>quadri_cad.py\<close> and the
  pieces of \<^verbatim>\<open>main\<close> that decide on loads (the add-load validation, the transformer
  lookup, the enclosure choice).

  Conventions of the embedding:
  \<^item> Python \<^verbatim>\<open>float\<close> and \<^verbatim>\<open>int\<close> quantities are values of type \<open>real\<close> and
    \<open>int\<close>: arithmetic is exact, rounding and overflow of IEEE doubles are not modelled.
    Decimal constants of the source (\<^verbatim>\<open>0.9\<close>, \<^verbatim>\<open>1.732\<close>, ...) are the rationals
    they spell.
  \<^item> A raised exception is a value \<open>Inl e\<close> of a sum type, a returned value is \<open>Inr v\<close>.
    A float division raises \<^verbatim>\<open>ZeroDivisionError\<close> exactly when the divisor is zero.
  \<^item> \<^verbatim>\<open>sum(...)\<close> over a generator is \<open>sum_list\<close> over the mapped list, a list
    comprehension with a condition is \<open>filter\<close>.
\<close>

subsection \<open>Failures\<close>

text \<open>
  The first two constructors are the Python exceptions the embedded code can raise, the
  third is the dictionary \<^verbatim>\<open>{"errore": msg}\<close> that \<^verbatim>\<open>seleziona_interruttore\<close> returns.
  The remaining constructors name the failure classes of the specification's error
  taxonomy; they are here so that statements can speak about them, and no embedded
  function ever produces one of them.
\<close>

datatype failure =
    ZeroDivisionError
  | ValueError
  | Errore string
  | EmptyLoadSet
  | InvalidVolume
  | NoStandardSizeFits

subsection \<open>Data structures\<close>

text \<open>The dataclass \<^verbatim>\<open>Carico\<close>; \<^verbatim>\<open>regime\<close> and \<^verbatim>\<open>priorita\<close> are plain strings.\<close>

record carico =
  nome :: string
  potenza_kw :: real
  cos_phi :: real
  regime :: string
  priorita :: string
  ore_giorno :: real

subsection \<open>Engineering calculations\<close>

text \<open>
  \<^verbatim>\<open>calcola_potenza_dimensionamento\<close>. The only operation that can raise is the division
  by \<^verbatim>\<open>pot_installata\<close>.
\<close>

definition calcola_potenza_dimensionamento :: "carico list \<Rightarrow> failure + real \<times> real \<times> real" where
  "calcola_potenza_dimensionamento carichi =
     (let pot_installata = sum_list (map potenza_kw carichi);
          carichi_continui = filter (\<lambda>c. regime c = ''continuo'') carichi;
          carichi_intermittenti = filter (\<lambda>c. regime c = ''intermittente'') carichi;
          pot_continua = sum_list (map potenza_kw carichi_continui);
          pot_intermittente =
            sum_list (map (\<lambda>c. potenza_kw c * (ore_giorno c / 24)) carichi_intermittenti)
      in if pot_installata = 0 then Inl ZeroDivisionError
         else
           let fattore_contemporaneita =
                 min 0.9 ((pot_continua + pot_intermittente * 0.7) / pot_installata);
               pot_dimensionamento = pot_installata * fattore_contemporaneita * 1.15
           in Inr (pot_installata, fattore_contemporaneita, pot_dimensionamento))"

text \<open>
  \<^verbatim>\<open>calcola_corrente_cortocircuito\<close>; \<^verbatim>\<open>tensione\<close> is an \<^verbatim>\<open>int\<close> with default 400.
\<close>

definition calcola_corrente_cortocircuito :: "real \<Rightarrow> int \<Rightarrow> failure + real" where
  "calcola_corrente_cortocircuito potenza_trasf_kva tensione =
     (let sn_mva = potenza_trasf_kva / 1000
      in if 1.732 * real_of_int tensione * 0.06 = 0 then Inl ZeroDivisionError
         else Inr ((sn_mva * 1000) / (1.732 * real_of_int tensione * 0.06)))"

text \<open>
  Rows of the breaker table. \<^verbatim>\<open>load_interruttori_db\<close> builds a \<^verbatim>\<open>DataFrame\<close> from a list
  of dictionaries, so the rows carry the default index \<open>0, 1, 2, ...\<close>: a row is
  identified by its position and the table is the list of its rows in order.
\<close>

record riga =
  serie :: string
  modello :: string
  in_nom :: real
  icu :: real
  prezzo :: real

definition load_interruttori_db :: "riga list" where
  "load_interruttori_db =
     [\<lparr>serie = ''T1'', modello = ''T1S160'', in_nom = 63, icu = 15, prezzo = 450\<rparr>,
      \<lparr>serie = ''T1'', modello = ''T1S160'', in_nom = 80, icu = 15, prezzo = 520\<rparr>,
      \<lparr>serie = ''T2'', modello = ''T2S160'', in_nom = 100, icu = 25, prezzo = 680\<rparr>,
      \<lparr>serie = ''T2'', modello = ''T2S160'', in_nom = 125, icu = 25, prezzo = 750\<rparr>,
      \<lparr>serie = ''T3'', modello = ''T3S250'', in_nom = 160, icu = 35, prezzo = 950\<rparr>,
      \<lparr>serie = ''T3'', modello = ''T3S250'', in_nom = 200, icu = 35, prezzo = 1100\<rparr>,
      \<lparr>serie = ''T4'', modello = ''T4S250'', in_nom = 250, icu = 50, prezzo = 1450\<rparr>,
      \<lparr>serie = ''T5'', modello = ''T5H400'', in_nom = 320, icu = 65, prezzo = 2200\<rparr>,
      \<lparr>serie = ''T5'', modello = ''T5H400'', in_nom = 400, icu = 65, prezzo = 2800\<rparr>,
      \<lparr>serie = ''E1'', modello = ''E1N800'', in_nom = 630, icu = 42, prezzo = 4500\<rparr>,
      \<lparr>serie = ''E1'', modello = ''E1N800'', in_nom = 800, icu = 42, prezzo = 5200\<rparr>,
      \<lparr>serie = ''E2'', modello = ''E2N1250'', in_nom = 1000, icu = 65, prezzo = 7800\<rparr>,
      \<lparr>serie = ''E3'', modello = ''E3N1600'', in_nom = 1250, icu = 65, prezzo = 12000\<rparr>,
      \<lparr>serie = ''E3'', modello = ''E3N3200'', in_nom = 1600, icu = 65, prezzo = 15000\<rparr>]"

text \<open>
  \<^verbatim>\<open>Series.idxmin()\<close> of pandas: the index of the first occurrence of the minimum. It is
  only called on a non-empty column (the empty case returns before it).
\<close>

fun idxmin :: "real list \<Rightarrow> nat" where
  "idxmin [] = 0"
| "idxmin [x] = 0"
| "idxmin (x # y # ys) = (let i = idxmin (y # ys) in if (y # ys) ! i < x then Suc i else 0)"

text \<open>
  \<^verbatim>\<open>seleziona_interruttore\<close>. The boolean mask keeps the rows in table order;
  \<^verbatim>\<open>candidati.loc[candidati['prezzo'].idxmin()]\<close> is the candidate row at the position
  of the first minimal price. The error dictionary is \<open>Inl (Errore msg)\<close>.
\<close>

definition seleziona_interruttore :: "real \<Rightarrow> real \<Rightarrow> riga list \<Rightarrow> failure + riga" where
  "seleziona_interruttore corrente_richiesta icc db =
     (let candidati = filter (\<lambda>r. in_nom r \<ge> corrente_richiesta * 1.25 \<and> icu r \<ge> icc) db
      in if candidati = [] then Inl (Errore ''Nessun interruttore adeguato trovato'')
         else let ottimale = candidati ! idxmin (map prezzo candidati)
              in Inr ottimale)"

text \<open>
  \<^verbatim>\<open>verifica_termica_semplificata\<close>. The returned dictionary is a record with one field
  per key; \<^verbatim>\<open>coeff_dissip.get(ip_grade, 0.8)\<close> is a lookup with a default. The division by
  \<^verbatim>\<open>pot_dissipabile_max\<close> is the only operation that can raise.
\<close>

record esito_termico =
  pot_dissipata :: real
  pot_dissipabile :: real
  margine_pct :: real
  esito :: string

definition coeff_dissip :: "(string \<times> real) list" where
  "coeff_dissip = [(''IP31'', 1.0), (''IP43'', 0.9), (''IP65'', 0.75)]"

definition verifica_termica_semplificata :: "real \<Rightarrow> real \<Rightarrow> string \<Rightarrow> failure + esito_termico" where
  "verifica_termica_semplificata pot_diss volume_m3 ip_grade =
     (let k_dissip = (case map_of coeff_dissip ip_grade of Some k \<Rightarrow> k | None \<Rightarrow> 0.8);
          pot_dissipabile_max = volume_m3 * 400 * k_dissip
      in if pot_dissipabile_max = 0 then Inl ZeroDivisionError
         else
           let margine = (pot_dissipabile_max - pot_diss) / pot_dissipabile_max * 100
           in Inr \<lparr>pot_dissipata = pot_diss,
                   pot_dissipabile = pot_dissipabile_max,
                   margine_pct = margine,
                   esito = (if margine > 20 then ''OK''
                            else if margine > 0 then ''CRITICO'' else ''NON OK'')\<rparr>)"

subsection \<open>Decisions taken in \<^verbatim>\<open>main\<close>\<close>

text \<open>
  The transformer choice \<^verbatim>\<open>min([t for t in trasf_std if t >= pot_dim])\<close>. Python's
  \<^verbatim>\<open>min\<close> raises \<^verbatim>\<open>ValueError\<close> on an empty list and otherwise scans the list,
  replacing the current item by each strictly smaller one.
\<close>

definition trasf_std :: "int list" where
  "trasf_std = [160, 250, 315, 400, 500, 630, 800, 1000, 1250, 1600, 2000, 2500]"

fun py_min :: "int list \<Rightarrow> failure + int" where
  "py_min [] = Inl ValueError"
| "py_min (x # xs) = Inr (fold (\<lambda>item m. if item < m then item else m) xs x)"

definition trasf_scelto :: "real \<Rightarrow> failure + int" where
  "trasf_scelto pot_dim = py_min (filter (\<lambda>t. real_of_int t \<ge> pot_dim) trasf_std)"

text \<open>The general current \<^verbatim>\<open>in_generale\<close> computed from the design power.\<close>

definition in_generale :: "real \<Rightarrow> real" where
  "in_generale pot_dim = pot_dim * 1000 / (400 * 1.732 * 0.85)"

text \<open>
  The enclosure choice of the components tab: \<^verbatim>\<open>numero_partenze\<close> and the
  \<^verbatim>\<open>if\<close>/\<^verbatim>\<open>elif\<close>/\<^verbatim>\<open>else\<close> chain that sets \<^verbatim>\<open>carpenteria\<close> and \<^verbatim>\<open>costo_carp\<close>.
\<close>

definition numero_partenze :: "carico list \<Rightarrow> nat" where
  "numero_partenze carichi = length carichi + 1"

definition carpenteria :: "carico list \<Rightarrow> real \<Rightarrow> string \<times> nat" where
  "carpenteria carichi in_gen =
     (if numero_partenze carichi \<le> 6 \<and> in_gen \<le> 400 then (''ArTu M - 1 colonna'', 8000)
      else if numero_partenze carichi \<le> 12 \<and> in_gen \<le> 800 then (''ArTu K - 1 colonna'', 12000)
      else (''ArTu K - 2 colonne'', 18000))"

text \<open>
  The add-load button. A name is a string of 8-bit characters, each character standing
  for the code point of the same number (the Latin-1 range, code points below 256);
  names with code points from 256 on are outside the model. On this range
  \<^verbatim>\<open>str.lower\<close> maps the capitals \<open>A\<close> to \<open>Z\<close> and U+00C0 to U+00DE (without the
  multiplication sign U+00D7) to the code point 32 higher and leaves every other
  character alone, and \<^verbatim>\<open>str.strip\<close> removes the leading and trailing characters for which
  \<^verbatim>\<open>str.isspace\<close> holds: code points 9 to 13, 28 to 32, U+0085 and U+00A0.
\<close>

definition latin1_upper :: "char list" where
  "latin1_upper =
     [CHR 0xC0, CHR 0xC1, CHR 0xC2, CHR 0xC3, CHR 0xC4, CHR 0xC5, CHR 0xC6,
      CHR 0xC7, CHR 0xC8, CHR 0xC9, CHR 0xCA, CHR 0xCB, CHR 0xCC, CHR 0xCD,
      CHR 0xCE, CHR 0xCF, CHR 0xD0, CHR 0xD1, CHR 0xD2, CHR 0xD3, CHR 0xD4,
      CHR 0xD5, CHR 0xD6, CHR 0xD8, CHR 0xD9, CHR 0xDA, CHR 0xDB, CHR 0xDC,
      CHR 0xDD, CHR 0xDE]"

definition latin1_lower :: "char list" where
  "latin1_lower =
     [CHR 0xE0, CHR 0xE1, CHR 0xE2, CHR 0xE3, CHR 0xE4, CHR 0xE5, CHR 0xE6,
      CHR 0xE7, CHR 0xE8, CHR 0xE9, CHR 0xEA, CHR 0xEB, CHR 0xEC, CHR 0xED,
      CHR 0xEE, CHR 0xEF, CHR 0xF0, CHR 0xF1, CHR 0xF2, CHR 0xF3, CHR 0xF4,
      CHR 0xF5, CHR 0xF6, CHR 0xF8, CHR 0xF9, CHR 0xFA, CHR 0xFB, CHR 0xFC,
      CHR 0xFD, CHR 0xFE]"

definition lower_char :: "char \<Rightarrow> char" where
  "lower_char c =
     (case map_of (zip (''ABCDEFGHIJKLMNOPQRSTUVWXYZ'' @ latin1_upper)
                       (''abcdefghijklmnopqrstuvwxyz'' @ latin1_lower)) c of
        Some l \<Rightarrow> l
      | None \<Rightarrow> c)"

definition lower :: "string \<Rightarrow> string" where
  "lower s = map lower_char s"

definition isspace :: "char \<Rightarrow> bool" where
  "isspace c =
     (let n = (of_char c :: nat)
      in (9 \<le> n \<and> n \<le> 13) \<or> (28 \<le> n \<and> n \<le> 32) \<or> n = 133 \<or> n = 160)"

definition strip :: "string \<Rightarrow> string" where
  "strip s = rev (dropWhile isspace (rev (dropWhile isspace s)))"

text \<open>
  What the button reports: one constructor per \<^verbatim>\<open>st.error\<close> message of the validation
  chain and one for \<^verbatim>\<open>st.success\<close>; the two messages that quote the name carry it.
\<close>

datatype messaggio =
    Inserire_denominazione
  | Potenza_non_positiva
  | Gia_esistente string
  | Aggiunto string

text \<open>
  The body of \<^verbatim>\<open>if st.button("Aggiungi Carico")\<close>: the message shown and the list
  \<^verbatim>\<open>st.session_state.carichi\<close> afterwards. Only the last branch touches the list.
\<close>

definition aggiungi_carico ::
  "carico list \<Rightarrow> string \<Rightarrow> real \<Rightarrow> real \<Rightarrow> string \<Rightarrow> string \<Rightarrow> real \<Rightarrow> messaggio \<times> carico list" where
  "aggiungi_carico carichi nome' potenza cos_phi' regime' priorita' ore_giorno' =
     (if nome' = [] \<or> strip nome' = [] then (Inserire_denominazione, carichi)
      else if potenza \<le> 0 then (Potenza_non_positiva, carichi)
      else if list_ex (\<lambda>c. lower (nome c) = lower nome') carichi
        then (Gia_esistente nome', carichi)
      else (Aggiunto nome',
            carichi @ [\<lparr>nome = strip nome', potenza_kw = potenza, cos_phi = cos_phi',
                         regime = regime', priorita = priorita', ore_giorno = ore_giorno'\<rparr>]))"

text \<open>The two load templates of the loads tab.\<close>

definition template_officina :: "carico list" where
  "template_officina =
     [\<lparr>nome = ''Centro CNC 1'', potenza_kw = 45, cos_phi = 0.85, regime = ''continuo'',
        priorita = ''normale'', ore_giorno = 16\<rparr>,
      \<lparr>nome = ''Centro CNC 2'', potenza_kw = 35, cos_phi = 0.85, regime = ''continuo'',
        priorita = ''normale'', ore_giorno = 16\<rparr>,
      \<lparr>nome = ''Tornio'', potenza_kw = 15, cos_phi = 0.8, regime = ''intermittente'',
        priorita = ''normale'', ore_giorno = 8\<rparr>,
      \<lparr>nome = ''Compressore'', potenza_kw = 22, cos_phi = 0.85, regime = ''continuo'',
        priorita = ''critico'', ore_giorno = 24\<rparr>,
      \<lparr>nome = ''Illuminazione'', potenza_kw = 15, cos_phi = 0.9, regime = ''continuo'',
        priorita = ''normale'', ore_giorno = 12\<rparr>]"

definition template_caseificio :: "carico list" where
  "template_caseificio =
     [\<lparr>nome = ''Pastorizzatore'', potenza_kw = 120, cos_phi = 0.9, regime = ''continuo'',
        priorita = ''critico'', ore_giorno = 24\<rparr>,
      \<lparr>nome = ''Gruppo Frigo'', potenza_kw = 85, cos_phi = 0.85, regime = ''continuo'',
        priorita = ''critico'', ore_giorno = 24\<rparr>,
      \<lparr>nome = ''Centrifuga'', potenza_kw = 75, cos_phi = 0.8, regime = ''intermittente'',
        priorita = ''normale'', ore_giorno = 6\<rparr>,
      \<lparr>nome = ''Confezionamento'', potenza_kw = 35, cos_phi = 0.85, regime = ''continuo'',
        priorita = ''normale'', ore_giorno = 16\<rparr>]"

subsection \<open>The specification's wording of the sizing rule\<close>

text \<open>
  The quantities of the specification's sizing rule, written from its sentences, to be
  compared with what \<open>calcola_potenza_dimensionamento\<close> returns.
\<close>

definition spec_installed_power :: "carico list \<Rightarrow> real" where
  "spec_installed_power loads = (\<Sum>c\<leftarrow>loads. potenza_kw c)"

definition spec_continuous_power :: "carico list \<Rightarrow> real" where
  "spec_continuous_power loads =
     (\<Sum>c\<leftarrow>filter (\<lambda>c. regime c = ''continuo'') loads. potenza_kw c)"

definition spec_intermittent_equivalent :: "carico list \<Rightarrow> real" where
  "spec_intermittent_equivalent loads =
     (\<Sum>c\<leftarrow>filter (\<lambda>c. regime c = ''intermittente'') loads.
        potenza_kw c * (ore_giorno c / 24))"

definition spec_simultaneity_factor :: "carico list \<Rightarrow> real" where
  "spec_simultaneity_factor loads =
     min 0.9 ((spec_continuous_power loads + 0.7 * spec_intermittent_equivalent loads)
              / spec_installed_power loads)"

subsection \<open>The specification's wording of the dissipation coefficient\<close>

definition spec_coefficient :: "string \<Rightarrow> real" where
  "spec_coefficient grade =
     (if grade = ''IP31'' then 1.0
      else if grade = ''IP43'' then 0.9
      else if grade = ''IP65'' then 0.75
      else 0.8)"

subsection \<open>The specification's wording of the candidate filter\<close>

definition spec_conforming :: "real \<Rightarrow> real \<Rightarrow> riga \<Rightarrow> bool" where
  "spec_conforming required_current fault_current r \<longleftrightarrow>
     in_nom r \<ge> required_current * 1.25 \<and> icu r \<ge> fault_current"

section \<open>Properties\<close>

subsection \<open>Sums of non-negative terms\<close>



subsection \<open>Sizing\<close>

text \<open>
  C1, as stated, fails: a non-empty list whose installed power is zero makes the division
  by \<^verbatim>\<open>pot_installata\<close> raise, so nothing is returned.
\<close>

theorem C1_counterexample:
  "calcola_potenza_dimensionamento
     [\<lparr>nome = ''Riserva'', potenza_kw = 0, cos_phi = 0.85, regime = ''continuo'',
       priorita = ''normale'', ore_giorno = 24\<rparr>] = Inl ZeroDivisionError"
  by (simp add: calcola_potenza_dimensionamento_def)

text \<open>
  C1, amended: for every non-empty list of loads whose installed power (the sum of
  \<^verbatim>\<open>potenza_kw\<close> over all loads) is not zero, \<open>calcola_potenza_dimensionamento\<close> returns
  the installed power, the simultaneity factor
  \<open>min(0.9, (continuous_power + 0.7 \<times> intermittent_equivalent) / installed_power)\<close> and the
  design power \<open>installed_power \<times> simultaneity_factor \<times> 1.15\<close>.
\<close>

theorem C1_compute_sizing:
  assumes "loads \<noteq> []" and "spec_installed_power loads \<noteq> 0"
  shows "calcola_potenza_dimensionamento loads =
           Inr (spec_installed_power loads,
                spec_simultaneity_factor loads,
                spec_installed_power loads * spec_simultaneity_factor loads * 1.15)"
  using assms
  by (simp add: calcola_potenza_dimensionamento_def spec_installed_power_def
      spec_simultaneity_factor_def spec_continuous_power_def
      spec_intermittent_equivalent_def Let_def mult.commute)

theorem C1_compute_sizing_witness:
  "[\<lparr>nome = ''Forno'', potenza_kw = 100, cos_phi = 0.85, regime = ''continuo'',
     priorita = ''normale'', ore_giorno = 24\<rparr>] \<noteq> []
   \<and> spec_installed_power
       [\<lparr>nome = ''Forno'', potenza_kw = 100, cos_phi = 0.85, regime = ''continuo'',
         priorita = ''normale'', ore_giorno = 24\<rparr>] \<noteq> 0
   \<and> calcola_potenza_dimensionamento
       [\<lparr>nome = ''Forno'', potenza_kw = 100, cos_phi = 0.85, regime = ''continuo'',
         priorita = ''normale'', ore_giorno = 24\<rparr>] = Inr (100, 0.9, 103.5)"
  using C1_compute_sizing
    [of "[\<lparr>nome = ''Forno'', potenza_kw = 100, cos_phi = 0.85, regime = ''continuo'',
           priorita = ''normale'', ore_giorno = 24\<rparr>]"]
  by (simp add: spec_installed_power_def spec_simultaneity_factor_def
      spec_continuous_power_def spec_intermittent_equivalent_def)

text \<open>
  C5, as stated, fails: on the empty list the function does not fail with
  \<open>EmptyLoadSet\<close>.
\<close>

theorem C5_counterexample:
  "calcola_potenza_dimensionamento [] \<noteq> Inl EmptyLoadSet"
  by (simp add: calcola_potenza_dimensionamento_def)

text \<open>
  C5, amended: called with an empty list of loads (installed power 0),
  \<open>calcola_potenza_dimensionamento\<close> returns no value and defaults nothing: the division by
  the installed power raises \<^verbatim>\<open>ZeroDivisionError\<close>, the same failure as for any other
  list whose installed power is zero. The callers in \<^verbatim>\<open>main\<close> test for the empty
  list before they call.
\<close>

theorem C5_empty_load_list:
  "calcola_potenza_dimensionamento [] = Inl ZeroDivisionError
     \<and> (calcola_potenza_dimensionamento carichi = Inl ZeroDivisionError
          \<longleftrightarrow> sum_list (map potenza_kw carichi) = 0)"
  by (simp add: calcola_potenza_dimensionamento_def Let_def)




subsection \<open>Short-circuit current\<close>


text \<open>
  C4, as stated, fails: the short-circuit current of a 1000 kVA transformer at 400 V is
  not within half a unit of the last digit of 2.406; it is ten times larger.
\<close>

theorem C4_counterexample:
  "calcola_corrente_cortocircuito 1000 400 = Inr (31250 / 1299)
     \<and> \<not> \<bar>(31250 / 1299 :: real) - 2.406\<bar> \<le> 0.0005"
  by (simp add: calcola_corrente_cortocircuito_def)

text \<open>
  C4, amended: \<^verbatim>\<open>calcola_corrente_cortocircuito(1000, 400)\<close> is the value of
  \<open>(1 \<times> 1000) / (1.732 \<times> 400 \<times> 0.06)\<close>, which is approximately 24.057 kA.
\<close>

theorem C4_icc_1000_400:
  "calcola_corrente_cortocircuito 1000 400 = Inr ((1 * 1000) / (1.732 * 400 * 0.06))
     \<and> \<bar>((1 * 1000) / (1.732 * 400 * 0.06) :: real) - 24.057\<bar> \<le> 0.0005"
  by (simp add: calcola_corrente_cortocircuito_def)

subsection \<open>Thermal verification\<close>

lemma k_dissip_spec:
  "(case map_of coeff_dissip ip_grade of Some k \<Rightarrow> k | None \<Rightarrow> 0.8) = spec_coefficient ip_grade"
  by (simp add: coeff_dissip_def spec_coefficient_def)

lemma spec_coefficient_pos: "0 < spec_coefficient ip_grade"
  by (simp add: spec_coefficient_def)

lemma verifica_termica_nonzero:
  assumes "volume_m3 \<noteq> 0"
  shows "verifica_termica_semplificata pot_diss volume_m3 ip_grade =
     Inr \<lparr>pot_dissipata = pot_diss,
          pot_dissipabile = volume_m3 * 400 * spec_coefficient ip_grade,
          margine_pct = (volume_m3 * 400 * spec_coefficient ip_grade - pot_diss)
                          / (volume_m3 * 400 * spec_coefficient ip_grade) * 100,
          esito = (if (volume_m3 * 400 * spec_coefficient ip_grade - pot_diss)
                          / (volume_m3 * 400 * spec_coefficient ip_grade) * 100 > 20 then ''OK''
                   else if (volume_m3 * 400 * spec_coefficient ip_grade - pot_diss)
                          / (volume_m3 * 400 * spec_coefficient ip_grade) * 100 > 0 then ''CRITICO''
                   else ''NON OK'')\<rparr>"
proof -
  have "volume_m3 * 400 * spec_coefficient ip_grade \<noteq> 0"
    using assms spec_coefficient_pos [of ip_grade] by simp
  then show ?thesis
    unfolding verifica_termica_semplificata_def k_dissip_spec Let_def by simp
qed

text \<open>
  C3: for every dissipated power, every enclosure volume \<open>> 0\<close> and every protection
  grade, \<open>verifica_termica_semplificata\<close> returns a result with
  \<open>max_dissipable = volume \<times> 400 \<times> coefficient\<close> (coefficient 1.0 for IP31, 0.9 for IP43,
  0.75 for IP65, 0.8 for any other grade),
  \<open>margin_pct = (max_dissipable - dissipated) / max_dissipable \<times> 100\<close>, and a verdict that
  is \<^verbatim>\<open>OK\<close> iff \<open>margin_pct > 20\<close>, \<^verbatim>\<open>CRITICO\<close> iff \<open>0 < margin_pct \<le> 20\<close> and
  \<^verbatim>\<open>NON OK\<close> iff \<open>margin_pct \<le> 0\<close>; a margin of exactly 20 is \<^verbatim>\<open>CRITICO\<close> and a margin
  of exactly 0 is \<^verbatim>\<open>NON OK\<close>.
\<close>

theorem C3_verify_thermal:
  assumes "0 < volume_m3"
  shows "\<exists>r. verifica_termica_semplificata pot_diss volume_m3 ip_grade = Inr r
     \<and> pot_dissipata r = pot_diss
     \<and> pot_dissipabile r = volume_m3 * 400 * spec_coefficient ip_grade
     \<and> margine_pct r = (pot_dissipabile r - pot_diss) / pot_dissipabile r * 100
     \<and> (esito r = ''OK'' \<longleftrightarrow> margine_pct r > 20)
     \<and> (esito r = ''CRITICO'' \<longleftrightarrow> 0 < margine_pct r \<and> margine_pct r \<le> 20)
     \<and> (esito r = ''NON OK'' \<longleftrightarrow> margine_pct r \<le> 0)"
proof -
  have "volume_m3 \<noteq> 0" using assms by simp
  from verifica_termica_nonzero [OF this, of pot_diss ip_grade]
  show ?thesis by auto
qed

theorem C3_verify_thermal_witness:
  "(0::real) < 0.8
   \<and> verifica_termica_semplificata 256 0.8 ''IP31'' =
       Inr \<lparr>pot_dissipata = 256, pot_dissipabile = 320, margine_pct = 20, esito = ''CRITICO''\<rparr>
   \<and> verifica_termica_semplificata 320 0.8 ''IP31'' =
       Inr \<lparr>pot_dissipata = 320, pot_dissipabile = 320, margine_pct = 0, esito = ''NON OK''\<rparr>"
proof -
  have h: "(0::real) < 0.8" by simp
  show ?thesis
    using h C3_verify_thermal [OF h, of 256 "''IP31''"] C3_verify_thermal [OF h, of 320 "''IP31''"]
    by (auto simp add: spec_coefficient_def)
qed

text \<open>
  C7, as stated, fails: with a negative volume the function does not fail at all, it
  returns a verdict (here \<^verbatim>\<open>OK\<close>, with a negative dissipable power), and with volume 0
  the margin ratio is evaluated and its division by zero raises.
\<close>

theorem C7_counterexample:
  "verifica_termica_semplificata 100 (- 1) ''IP31'' =
     Inr \<lparr>pot_dissipata = 100, pot_dissipabile = - 400, margine_pct = 125, esito = ''OK''\<rparr>
   \<and> verifica_termica_semplificata 100 0 ''IP31'' = Inl ZeroDivisionError
   \<and> verifica_termica_semplificata 100 0 ''IP31'' \<noteq> Inl InvalidVolume"
  by (simp add: verifica_termica_semplificata_def coeff_dissip_def)

text \<open>
  C7, amended: called with enclosure volume 0, \<open>verifica_termica_semplificata\<close> fails
  with the \<^verbatim>\<open>ZeroDivisionError\<close> raised by the division of the margin ratio (no input
  validation precedes it); called with a negative volume it does not fail: it returns the
  result of the same formulas, with a negative \<open>max_dissipable\<close> and the verdict read
  off the margin by the same thresholds.
\<close>

theorem C7_nonpositive_volume:
  "(volume_m3 = 0 \<longrightarrow>
      verifica_termica_semplificata pot_diss volume_m3 ip_grade = Inl ZeroDivisionError)
   \<and> (volume_m3 < 0 \<longrightarrow>
      (\<exists>r. verifica_termica_semplificata pot_diss volume_m3 ip_grade = Inr r
         \<and> pot_dissipabile r = volume_m3 * 400 * spec_coefficient ip_grade
         \<and> pot_dissipabile r < 0
         \<and> margine_pct r = (pot_dissipabile r - pot_diss) / pot_dissipabile r * 100
         \<and> (esito r = ''OK'' \<longleftrightarrow> margine_pct r > 20)
         \<and> (esito r = ''CRITICO'' \<longleftrightarrow> 0 < margine_pct r \<and> margine_pct r \<le> 20)
         \<and> (esito r = ''NON OK'' \<longleftrightarrow> margine_pct r \<le> 0)))"
proof (intro conjI impI)
  assume "volume_m3 = 0"
  then show "verifica_termica_semplificata pot_diss volume_m3 ip_grade = Inl ZeroDivisionError"
    by (simp add: verifica_termica_semplificata_def)
next
  assume neg: "volume_m3 < 0"
  then have nz: "volume_m3 \<noteq> 0" by simp
  have "volume_m3 * 400 * spec_coefficient ip_grade < 0"
    using neg spec_coefficient_pos [of ip_grade] by (simp add: mult_neg_pos)
  with verifica_termica_nonzero [OF nz, of pot_diss ip_grade]
  show "\<exists>r. verifica_termica_semplificata pot_diss volume_m3 ip_grade = Inr r
         \<and> pot_dissipabile r = volume_m3 * 400 * spec_coefficient ip_grade
         \<and> pot_dissipabile r < 0
         \<and> margine_pct r = (pot_dissipabile r - pot_diss) / pot_dissipabile r * 100
         \<and> (esito r = ''OK'' \<longleftrightarrow> margine_pct r > 20)
         \<and> (esito r = ''CRITICO'' \<longleftrightarrow> 0 < margine_pct r \<and> margine_pct r \<le> 20)
         \<and> (esito r = ''NON OK'' \<longleftrightarrow> margine_pct r \<le> 0)"
    by auto
qed

theorem C7_nonpositive_volume_witness:
  "verifica_termica_semplificata 100 0 ''IP65'' = Inl ZeroDivisionError
   \<and> (\<exists>r. verifica_termica_semplificata 500 (- 1) ''IP65'' = Inr r \<and> pot_dissipabile r = - 300
          \<and> esito r = ''OK'')"
  using C7_nonpositive_volume [of 0 100 "''IP65''"] C7_nonpositive_volume [of "- 1" 500 "''IP65''"]
  by (auto simp add: spec_coefficient_def)

subsection \<open>Breaker selection\<close>

lemma idxmin_less: "xs \<noteq> [] \<Longrightarrow> idxmin xs < length xs"
  by (induction xs rule: idxmin.induct) (auto simp: Let_def)

lemma idxmin_le: "x \<in> set xs \<Longrightarrow> xs ! idxmin xs \<le> x"
proof (induction xs arbitrary: x rule: idxmin.induct)
  case 1
  then show ?case by simp
next
  case (2 a)
  then show ?case by simp
next
  case (3 a b ys)
  then show ?case by (fastforce simp: Let_def)
qed

lemma idxmin_first: "j < idxmin xs \<Longrightarrow> xs ! idxmin xs < xs ! j"
proof (induction xs arbitrary: j rule: idxmin.induct)
  case 1
  then show ?case by simp
next
  case (2 a)
  then show ?case by simp
next
  case (3 a b ys)
  show ?case
  proof (cases j)
    case 0
    then show ?thesis using "3.prems" by (auto simp: Let_def split: if_splits)
  next
    case (Suc k)
    then show ?thesis using "3.prems" "3.IH" [of k]
      by (auto simp: Let_def split: if_splits)
  qed
qed

lemma hd_filter_first:
  "i < length xs \<Longrightarrow> P (xs ! i) \<Longrightarrow> (\<forall>j<i. \<not> P (xs ! j)) \<Longrightarrow> hd (filter P xs) = xs ! i"
proof (induction xs arbitrary: i)
  case Nil
  then show ?case by simp
next
  case (Cons a xs)
  show ?case
  proof (cases i)
    case 0
    then show ?thesis using Cons.prems by simp
  next
    case (Suc k)
    have "\<not> P a" using Cons.prems(3) Suc by auto
    moreover have "\<forall>j<k. \<not> P (xs ! j)"
    proof (intro allI impI)
      fix j assume "j < k"
      then have "Suc j < i" using Suc by simp
      then have "\<not> P ((a # xs) ! Suc j)" using Cons.prems(3) by blast
      then show "\<not> P (xs ! j)" by simp
    qed
    then have "hd (filter P xs) = xs ! k"
      using Cons.IH [of k] Cons.prems(1,2) Suc by simp
    ultimately show ?thesis using Suc by simp
  qed
qed

lemma ottimale_props:
  assumes ne: "cs \<noteq> []" and ott: "ott = cs ! idxmin (map prezzo cs)"
  shows "ott \<in> set cs" and "\<forall>r\<in>set cs. prezzo ott \<le> prezzo r"
    and "ott = hd (filter (\<lambda>r. prezzo r = prezzo ott) cs)"
proof -
  let ?i = "idxmin (map prezzo cs)"
  have i: "?i < length cs" using idxmin_less [of "map prezzo cs"] ne by simp
  then show "ott \<in> set cs" by (simp add: ott)
  have po: "prezzo ott = map prezzo cs ! ?i" using i by (simp add: ott)
  show "\<forall>r\<in>set cs. prezzo ott \<le> prezzo r"
  proof
    fix r assume "r \<in> set cs"
    then have "prezzo r \<in> set (map prezzo cs)" by simp
    from idxmin_le [OF this] show "prezzo ott \<le> prezzo r" using po by simp
  qed
  have "\<forall>j<?i. prezzo (cs ! j) \<noteq> prezzo ott"
  proof (intro allI impI)
    fix j assume j: "j < ?i"
    from idxmin_first [OF this] have "map prezzo cs ! ?i < map prezzo cs ! j" .
    then show "prezzo (cs ! j) \<noteq> prezzo ott" using po j i by simp
  qed
  then show "ott = hd (filter (\<lambda>r. prezzo r = prezzo ott) cs)"
    using hd_filter_first [of ?i cs "\<lambda>r. prezzo r = prezzo ott"] i by (simp add: ott)
qed

text \<open>
  C2: for every required current, fault current and catalog, \<open>seleziona_interruttore\<close>
  either returns a catalog row with \<open>in_nom \<ge> required_current \<times> 1.25\<close> and
  \<open>icu \<ge> fault_current\<close> whose price is minimal among all rows satisfying both
  conditions, or, when no row satisfies both, returns the error dictionary (the
  no-suitable-component failure); it never returns a row violating a condition. The
  choice is a function of the inputs: it is the first row, in catalog order, among the
  conforming rows of minimal price.
\<close>

theorem C2_select_breaker:
  "((\<exists>r\<in>set db. spec_conforming required_current fault_current r) \<longrightarrow>
      (\<exists>r. seleziona_interruttore required_current fault_current db = Inr r
         \<and> r \<in> set db
         \<and> spec_conforming required_current fault_current r
         \<and> (\<forall>r'\<in>set db. spec_conforming required_current fault_current r' \<longrightarrow> prezzo r \<le> prezzo r')
         \<and> r = hd (filter (\<lambda>r'. spec_conforming required_current fault_current r'
                                  \<and> prezzo r' = prezzo r) db)))
   \<and> (\<not> (\<exists>r\<in>set db. spec_conforming required_current fault_current r) \<longrightarrow>
        seleziona_interruttore required_current fault_current db =
          Inl (Errore ''Nessun interruttore adeguato trovato''))"
proof -
  let ?conf = "spec_conforming required_current fault_current"
  let ?cs = "filter ?conf db"
  have sel: "seleziona_interruttore required_current fault_current db =
      (if ?cs = [] then Inl (Errore ''Nessun interruttore adeguato trovato'')
       else Inr (?cs ! idxmin (map prezzo ?cs)))"
    by (simp add: seleziona_interruttore_def spec_conforming_def [abs_def] Let_def)
  have empty: "?cs = [] \<longleftrightarrow> \<not> (\<exists>r\<in>set db. ?conf r)"
    by (simp add: filter_empty_conv)
  show ?thesis
  proof (intro conjI impI)
    assume ex: "\<exists>r\<in>set db. ?conf r"
    then have ne: "?cs \<noteq> []" using empty by simp
    let ?o = "?cs ! idxmin (map prezzo ?cs)"
    note p = ottimale_props [OF ne refl]
    have 1: "seleziona_interruttore required_current fault_current db = Inr ?o"
      using sel ne by simp
    have 2: "?o \<in> set db" "?conf ?o" using p(1) by auto
    have 3: "\<forall>r'\<in>set db. ?conf r' \<longrightarrow> prezzo ?o \<le> prezzo r'" using p(2) by auto
    have 4: "?o = hd (filter (\<lambda>r'. ?conf r' \<and> prezzo r' = prezzo ?o) db)"
      using p(3) by simp
    show "\<exists>r. seleziona_interruttore required_current fault_current db = Inr r
         \<and> r \<in> set db \<and> ?conf r
         \<and> (\<forall>r'\<in>set db. ?conf r' \<longrightarrow> prezzo r \<le> prezzo r')
         \<and> r = hd (filter (\<lambda>r'. ?conf r' \<and> prezzo r' = prezzo r) db)"
      using 1 2 3 4 by blast
  next
    assume "\<not> (\<exists>r\<in>set db. ?conf r)"
    then show "seleziona_interruttore required_current fault_current db =
          Inl (Errore ''Nessun interruttore adeguato trovato'')"
      using sel empty by simp
  qed
qed

theorem C2_select_breaker_witness:
  "(\<exists>r\<in>set load_interruttori_db. spec_conforming 100 20 r)
   \<and> seleziona_interruttore 100 20 load_interruttori_db =
       Inr \<lparr>serie = ''T2'', modello = ''T2S160'', in_nom = 125, icu = 25, prezzo = 750\<rparr>
   \<and> \<not> (\<exists>r\<in>set load_interruttori_db. spec_conforming 2000 20 r)
   \<and> seleziona_interruttore 2000 20 load_interruttori_db =
       Inl (Errore ''Nessun interruttore adeguato trovato'')"
proof -
  have h1: "\<exists>r\<in>set load_interruttori_db. spec_conforming 100 20 r"
    by (simp add: load_interruttori_db_def spec_conforming_def)
  have h2: "\<not> (\<exists>r\<in>set load_interruttori_db. spec_conforming 2000 20 r)"
    by (simp add: load_interruttori_db_def spec_conforming_def)
  have e1: "seleziona_interruttore 100 20 load_interruttori_db =
       Inr \<lparr>serie = ''T2'', modello = ''T2S160'', in_nom = 125, icu = 25, prezzo = 750\<rparr>"
    using C2_select_breaker [of load_interruttori_db 100 20] h1
    by (simp add: seleziona_interruttore_def load_interruttori_db_def)
  have e2: "seleziona_interruttore 2000 20 load_interruttori_db =
       Inl (Errore ''Nessun interruttore adeguato trovato'')"
    using C2_select_breaker [of load_interruttori_db 2000 20] h2 by blast
  show ?thesis using h1 h2 e1 e2 by blast
qed

subsection \<open>Transformer lookup\<close>

lemma fold_min_props:
  fixes x :: int
  shows "fold (\<lambda>item m. if item < m then item else m) xs x \<in> set (x # xs)
         \<and> (\<forall>y\<in>set (x # xs). fold (\<lambda>item m. if item < m then item else m) xs x \<le> y)"
proof (induction xs arbitrary: x)
  case Nil
  then show ?case by simp
next
  case (Cons a xs)
  let ?f = "\<lambda>item m::int. if item < m then item else m"
  have step: "fold ?f (a # xs) x = fold ?f xs (?f a x)" by simp
  from Cons [of "?f a x"] show ?case
    unfolding step by (auto split: if_splits)
qed

lemma py_min_empty: "py_min xs = Inl ValueError \<longleftrightarrow> xs = []"
  by (cases xs) auto

lemma py_min_least:
  assumes "xs \<noteq> []"
  shows "\<exists>m. py_min xs = Inr m \<and> m \<in> set xs \<and> (\<forall>y\<in>set xs. m \<le> y)"
proof -
  obtain x ys where xs: "xs = x # ys" using assms by (cases xs) auto
  show ?thesis unfolding xs using fold_min_props [of ys x] by simp
qed

lemma candidates_empty:
  "filter (\<lambda>t. real_of_int t \<ge> pot_dim) trasf_std = [] \<longleftrightarrow> 2500 < pot_dim"
  by (auto simp add: trasf_std_def filter_empty_conv)

lemma trasf_scelto_ok:
  assumes "pot_dim \<le> 2500"
  shows "\<exists>t. trasf_scelto pot_dim = Inr t \<and> t \<in> set trasf_std \<and> pot_dim \<le> real_of_int t
           \<and> (\<forall>t'\<in>set trasf_std. pot_dim \<le> real_of_int t' \<longrightarrow> t \<le> t')"
proof -
  have "filter (\<lambda>t. real_of_int t \<ge> pot_dim) trasf_std \<noteq> []"
    using assms candidates_empty [of pot_dim] by simp
  from py_min_least [OF this] show ?thesis
    unfolding trasf_scelto_def by auto
qed

lemma trasf_scelto_fail:
  assumes "2500 < pot_dim"
  shows "trasf_scelto pot_dim = Inl ValueError"
  using assms candidates_empty [of pot_dim] by (simp add: trasf_scelto_def)

lemma trasf_scelto_Inr_iff:
  "(\<exists>t. trasf_scelto pot_dim = Inr t) \<longleftrightarrow> pot_dim \<le> 2500"
  using trasf_scelto_ok [of pot_dim] trasf_scelto_fail [of pot_dim]
  by (cases "pot_dim \<le> 2500") auto

lemma trasf_scelto_mono:
  assumes le: "pot_dim \<le> pot_dim'" and a: "trasf_scelto pot_dim = Inr t"
    and b: "trasf_scelto pot_dim' = Inr t'"
  shows "t \<le> t'"
proof -
  have "pot_dim \<le> 2500" using a trasf_scelto_Inr_iff [of pot_dim] by auto
  from trasf_scelto_ok [OF this] a
  have least: "\<forall>u\<in>set trasf_std. pot_dim \<le> real_of_int u \<longrightarrow> t \<le> u" by auto
  have "pot_dim' \<le> 2500" using b trasf_scelto_Inr_iff [of pot_dim'] by auto
  from trasf_scelto_ok [OF this] b
  have "t' \<in> set trasf_std" "pot_dim' \<le> real_of_int t'" by auto
  then show "t \<le> t'" using least le by auto
qed

text \<open>
  C6: the transformer lookup is to return the smallest standard size \<open>\<ge>\<close> the design
  power and to fail with \<open>NoStandardSizeFits\<close> exactly when the design power exceeds
  2500. Up to 2500 the code does so (\<open>trasf_scelto_ok\<close>, \<open>trasf_scelto_mono\<close>). Above
  2500 it does not: the candidate list is empty and \<^verbatim>\<open>min\<close> raises \<^verbatim>\<open>ValueError\<close>,
  where the sibling \<^verbatim>\<open>seleziona_interruttore\<close> tests for the empty candidate table and
  returns an error dictionary. The form admits such input: three continuous loads of
  1000 kW have the design power 3105.
\<close>

theorem C6_failing_input:
  "calcola_potenza_dimensionamento
     [\<lparr>nome = ''Forno 1'', potenza_kw = 1000, cos_phi = 0.85, regime = ''continuo'',
        priorita = ''normale'', ore_giorno = 24\<rparr>,
      \<lparr>nome = ''Forno 2'', potenza_kw = 1000, cos_phi = 0.85, regime = ''continuo'',
        priorita = ''normale'', ore_giorno = 24\<rparr>,
      \<lparr>nome = ''Forno 3'', potenza_kw = 1000, cos_phi = 0.85, regime = ''continuo'',
        priorita = ''normale'', ore_giorno = 24\<rparr>] = Inr (3000, 0.9, 3105)
   \<and> trasf_scelto 3105 = Inl ValueError
   \<and> trasf_scelto 3105 \<noteq> Inl NoStandardSizeFits"
  by (simp add: calcola_potenza_dimensionamento_def trasf_scelto_def trasf_std_def)

subsection \<open>Adding a load\<close>

text \<open>
  When the text typed into the form equals a stored name up to letter case, nothing is
  added: the outcome is the message of the first check that fails, and the list is the
  one before.
\<close>

lemma aggiungi_carico_raw_duplicate:
  assumes dup: "\<exists>c\<in>set carichi. lower (nome c) = lower nome'"
  shows "aggiungi_carico carichi nome' potenza cos_phi' regime' priorita' ore_giorno' =
           (if nome' = [] \<or> strip nome' = [] then (Inserire_denominazione, carichi)
            else if potenza \<le> 0 then (Potenza_non_positiva, carichi)
            else (Gia_esistente nome', carichi))"
proof -
  have "list_ex (\<lambda>c. lower (nome c) = lower nome') carichi"
    using dup by (simp add: list_ex_iff)
  then show ?thesis by (simp add: aggiungi_carico_def)
qed

text \<open>
  C9: an add whose new load has the name of an already-present load, up to letter case,
  is to be rejected with the duplicate-name error, the collection left unchanged. The
  code does not do so: the duplicate check compares the text as typed
  (\<^verbatim>\<open>nome.lower()\<close>) while the load is stored under \<^verbatim>\<open>nome.strip()\<close>. With the load
  \<^verbatim>\<open>Tornio\<close> present, the text \<^verbatim>\<open>Tornio\<close> typed with a leading space passes the check and a
  second load named \<^verbatim>\<open>Tornio\<close> is appended.
\<close>

theorem C9_failing_input:
  "aggiungi_carico template_officina '' Tornio'' 10 0.8 ''intermittente'' ''normale'' 8 =
     (Aggiunto '' Tornio'',
      template_officina @
        [\<lparr>nome = ''Tornio'', potenza_kw = 10, cos_phi = 0.8, regime = ''intermittente'',
           priorita = ''normale'', ore_giorno = 8\<rparr>])
   \<and> (\<exists>c\<in>set template_officina. nome c = strip '' Tornio'')"
  by (simp add: aggiungi_carico_def strip_def isspace_def template_officina_def
      lower_def lower_char_def latin1_upper_def latin1_lower_def)

subsection \<open>Enclosure choice\<close>

text \<open>
  C10: for every list of loads and every general current, the enclosure choice is the
  ordered guard chain: if the number of loads plus one is \<open>\<le> 6\<close> and the general current is
  \<open>\<le> 400\<close>, the result is \<^verbatim>\<open>ArTu M - 1 colonna\<close> at cost 8000; otherwise if the number of
  loads plus one is \<open>\<le> 12\<close> and the general current is \<open>\<le> 800\<close>, the result is
  \<^verbatim>\<open>ArTu K - 1 colonna\<close> at cost 12000; otherwise it is \<^verbatim>\<open>ArTu K - 2 colonne\<close> at cost
  18000.
\<close>

theorem C10_enclosure_choice:
  "carpenteria carichi in_gen =
     (if length carichi + 1 \<le> 6 \<and> in_gen \<le> 400 then (''ArTu M - 1 colonna'', 8000)
      else if length carichi + 1 \<le> 12 \<and> in_gen \<le> 800 then (''ArTu K - 1 colonna'', 12000)
      else (''ArTu K - 2 colonne'', 18000))"
  by (simp add: carpenteria_def numero_partenze_def)

theorem C10_enclosure_choice_witness:
  "carpenteria template_officina 400 = (''ArTu M - 1 colonna'', 8000)
   \<and> carpenteria template_officina 400.5 = (''ArTu K - 1 colonna'', 12000)
   \<and> carpenteria (template_officina @ template_caseificio) 232 = (''ArTu K - 1 colonna'', 12000)
   \<and> carpenteria template_officina 800.5 = (''ArTu K - 2 colonne'', 18000)"
  using C10_enclosure_choice [of template_officina 400]
    C10_enclosure_choice [of template_officina "400.5"]
    C10_enclosure_choice [of "template_officina @ template_caseificio" 232]
    C10_enclosure_choice [of template_officina "800.5"]
  by (simp add: template_officina_def template_caseificio_def)

end
